theory Spec2Isabelle
  imports Main
begin

section \<open>Data model\<close>

text \<open>
  The development embeds \<^verbatim>\<open>app/src/lib/git/git-diff.ts\<close>: the class \<^verbatim>\<open>GitDiff\<close> with
  its three static methods \<^verbatim>\<open>getCommitDiff\<close>, \<^verbatim>\<open>getWorkingDirectoryDiff\<close> and
  \<^verbatim>\<open>diffFromRawDiffOutput\<close>. JavaScript strings are modelled as \<^typ>\<open>string\<close>, numbers
  used as exit codes as \<^typ>\<open>int\<close>, a \<^verbatim>\<open>Set\<close> as a HOL set, a rejected promise as the
  left summand of a sum type.
\<close>

subsection \<open>Declarations imported by the source file\<close>

text \<open>
  Modelled from the spec: the enum \<^verbatim>\<open>FileStatus\<close> of \<^verbatim>\<open>models/status\<close> is imported by the
  source but its declaration is not part of it. The spec names \<^verbatim>\<open>New\<close>, \<^verbatim>\<open>Renamed\<close>,
  \<^verbatim>\<open>Modified\<close> and "others not relevant to diffing logic"; the others are \<open>Deleted\<close>,
  \<open>Conflicted\<close> and \<open>OtherStatus n\<close>, which stands for any further member of the enum.
\<close>

datatype FileStatus = New | Modified | Deleted | Renamed | Conflicted | OtherStatus nat

text \<open>
  Modelled from the spec: the classes \<^verbatim>\<open>Repository\<close> (\<^verbatim>\<open>models/repository\<close>),
  \<^verbatim>\<open>FileChange\<close> and \<^verbatim>\<open>WorkingDirectoryFileChange\<close> (\<^verbatim>\<open>models/status\<close>) are not part
  of the source. The source reads \<^verbatim>\<open>repository.path\<close>, \<^verbatim>\<open>file.path\<close> and
  \<^verbatim>\<open>file.status\<close>, and nothing else.
\<close>

record Repository =
  path :: string

record FileChange =
  path :: string

record WorkingDirectoryFileChange = FileChange +
  status :: FileStatus

text \<open>
  Modelled from the spec: the interface \<^verbatim>\<open>IGitExecutionOptions\<close> of \<^verbatim>\<open>./core\<close>. The
  source sets the one field \<^verbatim>\<open>successExitCodes\<close>.
\<close>

record IGitExecutionOptions =
  successExitCodes :: "int set"

text \<open>
  Modelled from the spec: the value the promise of \<^verbatim>\<open>git\<close> resolves to. The source
  reads \<^verbatim>\<open>value.stdout\<close>.
\<close>

record IGitResult =
  stdout :: string
  exitCode :: int

subsection \<open>The structured diff\<close>

text \<open>
  Modelled from the spec: \<^verbatim>\<open>Diff\<close> of \<^verbatim>\<open>models/diff\<close>, section 3 of the spec. A diff is
  an ordered sequence of hunks; a hunk has a header with the old and the new range and an
  ordered sequence of lines; a line has its content, a kind, and the old and new line
  numbers where it has them. The "not diffable" outcome is a variant of the result of its
  own.
\<close>

datatype DiffLineKind = Added | Removed | Context

record DiffLine =
  content :: string
  kind :: DiffLineKind
  oldLineNumber :: "nat option"
  newLineNumber :: "nat option"

record HunkHeader =
  oldStart :: nat
  oldCount :: nat
  newStart :: nat
  newCount :: nat

record Hunk =
  header :: HunkHeader
  hunkLines :: "DiffLine list"

datatype Diff = Diff (hunks: "Hunk list") | NotDiffable

text \<open>
  The errors of section 7 of the spec: the tool exited with a code that is not accepted
  (the code is kept) or could not be started, or the patch text could not be interpreted
  (the offending line is kept). \<open>TypeError\<close> is the exception of the JavaScript runtime
  for reading \<^verbatim>\<open>undefined\<close> as an object.
\<close>

datatype Error = ToolExecutionError "int option" | ParseError string | TypeError

section \<open>JavaScript built-ins used by the source\<close>

definition NUL :: char where
  "NUL = CHR 0x00"

definition LF :: char where
  "LF = CHR 0x0A"

text \<open>
  \<^verbatim>\<open>s.split(sep)\<close> for a separator of one character: the segments between the
  occurrences of the separator, in order. A string with \<open>n\<close> occurrences has \<open>n + 1\<close>
  segments; the empty string has the single segment \<^verbatim>\<open>""\<close>.
\<close>

fun split_acc :: "'a \<Rightarrow> 'a list \<Rightarrow> 'a list \<Rightarrow> 'a list list" where
  "split_acc sep cur [] = [rev cur]"
| "split_acc sep cur (c # cs) =
     (if c = sep then rev cur # split_acc sep [] cs else split_acc sep (c # cur) cs)"

definition split :: "'a list \<Rightarrow> 'a \<Rightarrow> 'a list list" where
  "split s sep = split_acc sep [] s"

text \<open>
  \<^verbatim>\<open>xs.join(sep)\<close> for a separator of one character, the inverse of \<^verbatim>\<open>split\<close>: it is used
  to state what \<open>split\<close> returns.
\<close>

fun join :: "'a \<Rightarrow> 'a list list \<Rightarrow> 'a list" where
  "join sep [] = []"
| "join sep [x] = x"
| "join sep (x # y # ys) = x @ sep # join sep (y # ys)"

text \<open>
  \<^verbatim>\<open>xs[i]\<close> on an array: the element when \<open>0 \<le> i < xs.length\<close>, \<^verbatim>\<open>undefined\<close>
  (here \<open>None\<close>) otherwise.
\<close>

definition index :: "'a list \<Rightarrow> int \<Rightarrow> 'a option" where
  "index xs i = (if 0 \<le> i \<and> i < int (length xs) then Some (xs ! nat i) else None)"

definition startsWith :: "string \<Rightarrow> string \<Rightarrow> bool" where
  "startsWith s p = (take (length p) s = p)"

section \<open>The diff parser\<close>

text \<open>
  Modelled from the spec: the class \<^verbatim>\<open>DiffParser\<close> of \<^verbatim>\<open>../diff-parser\<close> is imported by
  the source but is not part of it. Section 4.3 of the spec gives its contract: it keeps a
  running old-file and new-file line counter, which each call of \<^verbatim>\<open>parse\<close> starts fresh
  and each hunk header resets to the starts it declares; it recognises per-file headers,
  hunk headers and the line markers \<^verbatim>\<open>+\<close>, \<^verbatim>\<open>-\<close> and space, and takes any other line
  inside a hunk as metadata; a malformed hunk header is a \<open>ParseError\<close> with the
  offending line; binary or oversized content is \<open>NotDiffable\<close>. The counters are the
  fields of the parser object; the parser has no other state.
\<close>

record DiffParser =
  oldLine :: nat
  newLine :: nat

definition new_DiffParser :: DiffParser where
  "new_DiffParser = \<lparr>oldLine = 0, newLine = 0\<rparr>"

definition isDigit :: "char \<Rightarrow> bool" where
  "isDigit c = (48 \<le> (of_char c :: nat) \<and> (of_char c :: nat) \<le> 57)"

fun digitsValue :: "nat \<Rightarrow> string \<Rightarrow> nat" where
  "digitsValue acc [] = acc"
| "digitsValue acc (c # cs) = digitsValue (10 * acc + (of_char c - 48)) cs"

text \<open>A decimal number of at least one digit at the front of the string, and the rest.\<close>

definition readNumber :: "string \<Rightarrow> (nat \<times> string) option" where
  "readNumber s =
     (let ds = takeWhile isDigit s
      in if ds = [] then None else Some (digitsValue 0 ds, dropWhile isDigit s))"

text \<open>The string without the expected prefix, when it starts with it.\<close>

definition expect :: "string \<Rightarrow> string \<Rightarrow> string option" where
  "expect p s = (if startsWith s p then Some (drop (length p) s) else None)"

text \<open>
  A range \<^verbatim>\<open>start,count\<close> or \<^verbatim>\<open>start\<close>, which by the unified-diff convention has the
  count 1.
\<close>

definition readRange :: "string \<Rightarrow> ((nat \<times> nat) \<times> string) option" where
  "readRange s =
     (case readNumber s of
        None \<Rightarrow> None
      | Some (a, r) \<Rightarrow>
          (case r of
             [] \<Rightarrow> Some ((a, 1), r)
           | c # r' \<Rightarrow>
               (if c = CHR '','' then
                  (case readNumber r' of
                     None \<Rightarrow> None
                   | Some (b, r'') \<Rightarrow> Some ((a, b), r''))
                else Some ((a, 1), r))))"

text \<open>A hunk header \<^verbatim>\<open>@@ -a,b +c,d @@\<close>; \<open>None\<close> when the line is not of that form.\<close>

definition parseHunkHeader :: "string \<Rightarrow> HunkHeader option" where
  "parseHunkHeader l =
     (case expect ''@@ -'' l of
        None \<Rightarrow> None
      | Some r1 \<Rightarrow>
          (case readRange r1 of
             None \<Rightarrow> None
           | Some ((a, b), r2) \<Rightarrow>
               (case expect '' +'' r2 of
                  None \<Rightarrow> None
                | Some r3 \<Rightarrow>
                    (case readRange r3 of
                       None \<Rightarrow> None
                     | Some ((c, d), r4) \<Rightarrow>
                         (case expect '' @@'' r4 of
                            None \<Rightarrow> None
                          | Some _ \<Rightarrow>
                              Some \<lparr>oldStart = a, oldCount = b,
                                    newStart = c, newCount = d\<rparr>)))))"

text \<open>The hunks closed so far, followed by the hunk being read when there is one.\<close>

definition closeHunk :: "Hunk list \<Rightarrow> Hunk option \<Rightarrow> Hunk list" where
  "closeHunk done cur = (case cur of None \<Rightarrow> done | Some h \<Rightarrow> done @ [h])"

definition addLine :: "Hunk \<Rightarrow> DiffLine \<Rightarrow> Hunk" where
  "addLine h l = h\<lparr>hunkLines := hunkLines h @ [l]\<rparr>"

text \<open>
  The loop over the lines of the patch text. The state is the parser object (its two
  counters), the hunks closed so far and the hunk being read. A line that starts with
  \<^verbatim>\<open>@@\<close> is a hunk header; before the first hunk every other line belongs to the per-file
  header; inside a hunk the first character of the line decides its kind.
\<close>

fun parseLines ::
  "DiffParser \<Rightarrow> Hunk list \<Rightarrow> Hunk option \<Rightarrow> string list \<Rightarrow> (Error + Hunk list) \<times> DiffParser"
where
  "parseLines p done cur [] = (Inr (closeHunk done cur), p)"
| "parseLines p done cur (l # ls) =
     (if startsWith l ''@@'' then
        (case parseHunkHeader l of
           None \<Rightarrow> (Inl (ParseError l), p)
         | Some h \<Rightarrow>
             parseLines (p\<lparr>oldLine := oldStart h, newLine := newStart h\<rparr>)
               (closeHunk done cur) (Some \<lparr>header = h, hunkLines = []\<rparr>) ls)
      else
        (case cur of
           None \<Rightarrow> parseLines p done cur ls
         | Some h \<Rightarrow>
             (if startsWith l ''+'' then
                parseLines (p\<lparr>newLine := newLine p + 1\<rparr>) done
                  (Some (addLine h \<lparr>content = l, kind = Added,
                     oldLineNumber = None, newLineNumber = Some (newLine p)\<rparr>)) ls
              else if startsWith l ''-'' then
                parseLines (p\<lparr>oldLine := oldLine p + 1\<rparr>) done
                  (Some (addLine h \<lparr>content = l, kind = Removed,
                     oldLineNumber = Some (oldLine p), newLineNumber = None\<rparr>)) ls
              else if startsWith l '' '' then
                parseLines (p\<lparr>oldLine := oldLine p + 1, newLine := newLine p + 1\<rparr>) done
                  (Some (addLine h \<lparr>content = l, kind = Context,
                     oldLineNumber = Some (oldLine p), newLineNumber = Some (newLine p)\<rparr>)) ls
              else parseLines p done cur ls)))"

text \<open>
  The marker with which the external tool, git, reports a binary file
  (\<^verbatim>\<open>Binary files a/x and b/x differ\<close>).
\<close>

definition isBinaryMarker :: "string \<Rightarrow> bool" where
  "isBinaryMarker l = startsWith l ''Binary files ''"

text \<open>
  \<^verbatim>\<open>parser.parse(diffText)\<close>. The size threshold of the spec is the parameter \<open>limit\<close>,
  a number of characters: the spec gives no value for it. The counters start fresh; the
  result is the outcome together with the parser object as the call leaves it.
\<close>

definition parse :: "nat \<Rightarrow> DiffParser \<Rightarrow> string \<Rightarrow> (Error + Diff) \<times> DiffParser" where
  "parse limit p diffText =
     (let ls = split diffText LF
      in if limit < length diffText \<or> list_ex isBinaryMarker ls then (Inr NotDiffable, p)
         else
           (case parseLines (p\<lparr>oldLine := 0, newLine := 0\<rparr>) [] None ls of
              (Inl e, p') \<Rightarrow> (Inl e, p')
            | (Inr hs, p') \<Rightarrow> (Inr (Diff hs), p')))"

section \<open>The process runner\<close>

text \<open>
  The external tool is a parameter of the model: for an argument list and a working
  directory it either exits with a code and its standard output, or cannot be started.
\<close>

datatype ToolOutcome = Exited int string | NotStarted

type_synonym Tool = "string list \<Rightarrow> string \<Rightarrow> ToolOutcome"

text \<open>
  Modelled from the spec: the function \<^verbatim>\<open>git\<close> of \<^verbatim>\<open>./core\<close> is imported by the source
  but is not part of it. Section 6 of the spec: given an argument list, a working directory
  and an optional set of successful exit codes (default \<open>{0}\<close>), it executes the external
  tool and returns its standard output; it fails if the exit code is outside the accepted
  set.
\<close>

definition acceptedExitCodes :: "IGitExecutionOptions option \<Rightarrow> int set" where
  "acceptedExitCodes options =
     (case options of None \<Rightarrow> {0} | Some opt \<Rightarrow> successExitCodes opt)"

definition git ::
  "Tool \<Rightarrow> string list \<Rightarrow> string \<Rightarrow> IGitExecutionOptions option \<Rightarrow> Error + IGitResult"
where
  "git tool arguments dir options =
     (case tool arguments dir of
        NotStarted \<Rightarrow> Inl (ToolExecutionError None)
      | Exited code out \<Rightarrow>
          (if code \<in> acceptedExitCodes options
           then Inr \<lparr>stdout = out, exitCode = code\<rparr>
           else Inl (ToolExecutionError (Some code))))"

section \<open>GitDiff\<close>

text \<open>
  Each call of \<^verbatim>\<open>new DiffParser()\<close> allocates an object. The store holds the parser
  objects allocated so far, the address of an object being its position; a method that
  allocates or mutates takes the store and returns it updated.
\<close>

type_synonym store = "DiffParser list"

text \<open>
  \<^verbatim>\<open>diffFromRawDiffOutput(result)\<close>, lines 70 to 74. \<^verbatim>\<open>pieces[pieces.length - 1]\<close> is
  \<^verbatim>\<open>undefined\<close> for an empty array; the parser, which reads its argument as a string,
  then raises a \<^verbatim>\<open>TypeError\<close>.
\<close>

definition diffFromRawDiffOutput :: "nat \<Rightarrow> store \<Rightarrow> string \<Rightarrow> (Error + Diff) \<times> store" where
  "diffFromRawDiffOutput limit st result =
     (let pieces = split result NUL;
          parser = length st;
          st1 = st @ [new_DiffParser]
      in case index pieces (int (length pieces) - 1) of
           None \<Rightarrow> (Inl TypeError, st1)
         | Some piece \<Rightarrow>
             (case parse limit (st1 ! parser) piece of
                (r, p') \<Rightarrow> (r, st1[parser := p'])))"

text \<open>
  What is handed to \<^verbatim>\<open>git\<close>: the argument list, the working directory and the
  execution options (\<open>None\<close> for \<^verbatim>\<open>undefined\<close>).
\<close>

record Invocation =
  args :: "string list"
  cwd :: string
  opts :: "IGitExecutionOptions option"

text \<open>\<^verbatim>\<open>getCommitDiff\<close>, line 19 and the call of line 21: no options are passed.\<close>

definition getCommitDiff_invocation :: "Repository \<Rightarrow> 'a FileChange_scheme \<Rightarrow> string \<Rightarrow> Invocation" where
  "getCommitDiff_invocation repository file commitish =
     \<lparr>args = [''log'', commitish, ''-m'', ''-1'', ''--first-parent'', ''--patch-with-raw'',
              ''-z'', ''--'', FileChange.path file],
      cwd = Repository.path repository,
      opts = None\<rparr>"

text \<open>\<^verbatim>\<open>getWorkingDirectoryDiff\<close>, lines 32 to 59 and the call of line 61.\<close>

definition getWorkingDirectoryDiff_invocation ::
  "Repository \<Rightarrow> 'a WorkingDirectoryFileChange_scheme \<Rightarrow> Invocation"
where
  "getWorkingDirectoryDiff_invocation repository file =
     (if status file = New then
        \<lparr>args = [''diff'', ''--no-index'', ''--patch-with-raw'', ''-z'', ''--'', ''/dev/null'',
                 FileChange.path file],
         cwd = Repository.path repository,
         opts = Some \<lparr>successExitCodes = {0, 1}\<rparr>\<rparr>
      else if status file = Renamed then
        \<lparr>args = [''diff'', ''--patch-with-raw'', ''-z'', ''--'', FileChange.path file],
         cwd = Repository.path repository,
         opts = None\<rparr>
      else
        \<lparr>args = [''diff'', ''HEAD'', ''--patch-with-raw'', ''-z'', ''--'', FileChange.path file],
         cwd = Repository.path repository,
         opts = None\<rparr>)"

text \<open>
  \<^verbatim>\<open>git(args, repository.path, opts).then(value => this.diffFromRawDiffOutput(value.stdout))\<close>:
  a rejected promise of \<^verbatim>\<open>git\<close> is passed on and the parser is not reached.
\<close>

definition runAndParse :: "Tool \<Rightarrow> nat \<Rightarrow> store \<Rightarrow> Invocation \<Rightarrow> (Error + Diff) \<times> store" where
  "runAndParse tool limit st call =
     (case git tool (args call) (cwd call) (opts call) of
        Inl e \<Rightarrow> (Inl e, st)
      | Inr v \<Rightarrow> diffFromRawDiffOutput limit st (stdout v))"

definition getCommitDiff ::
  "Tool \<Rightarrow> nat \<Rightarrow> store \<Rightarrow> Repository \<Rightarrow> 'a FileChange_scheme \<Rightarrow> string
     \<Rightarrow> (Error + Diff) \<times> store"
where
  "getCommitDiff tool limit st repository file commitish =
     runAndParse tool limit st (getCommitDiff_invocation repository file commitish)"

definition getWorkingDirectoryDiff ::
  "Tool \<Rightarrow> nat \<Rightarrow> store \<Rightarrow> Repository \<Rightarrow> 'a WorkingDirectoryFileChange_scheme
     \<Rightarrow> (Error + Diff) \<times> store"
where
  "getWorkingDirectoryDiff tool limit st repository file =
     runAndParse tool limit st (getWorkingDirectoryDiff_invocation repository file)"

text \<open>
  Requests made one after the other, each on the store the one before has left.
\<close>

fun diffAll :: "nat \<Rightarrow> store \<Rightarrow> string list \<Rightarrow> (Error + Diff) list \<times> store" where
  "diffAll limit st [] = ([], st)"
| "diffAll limit st (r # rs) =
     (case diffFromRawDiffOutput limit st r of
        (d, st') \<Rightarrow> (case diffAll limit st' rs of (ds, st'') \<Rightarrow> (d # ds, st'')))"

section \<open>Reading an argument list\<close>

text \<open>
  The convention of the tool's command line: the first \<^verbatim>\<open>--\<close> separates the options and
  revisions, before it, from the paths, after it.
\<close>

definition revisionArgs :: "string list \<Rightarrow> string list" where
  "revisionArgs xs = takeWhile (\<lambda>a. a \<noteq> ''--'') xs"

definition pathArgs :: "string list \<Rightarrow> string list" where
  "pathArgs xs = drop 1 (dropWhile (\<lambda>a. a \<noteq> ''--'') xs)"

section \<open>Properties of the built-ins\<close>

lemma split_acc_nonempty: "split_acc sep cur s \<noteq> []"
  by (induction s arbitrary: cur) auto

lemma split_acc_no_separator: "sep \<notin> set s \<Longrightarrow> split_acc sep cur s = [rev cur @ s]"
  by (induction s arbitrary: cur) auto

lemma split_acc_last_after_separator:
  "last (split_acc sep cur (pre @ sep # seg)) = last (split_acc sep [] seg)"
  by (induction pre arbitrary: cur) (auto simp: split_acc_nonempty)

lemma split_nonempty: "split s sep \<noteq> []"
  by (simp add: split_def split_acc_nonempty)

lemma split_no_separator: "sep \<notin> set s \<Longrightarrow> split s sep = [s]"
  by (simp add: split_def split_acc_no_separator)

lemma last_split_after_separator:
  "sep \<notin> set seg \<Longrightarrow> last (split (pre @ sep # seg) sep) = seg"
  by (simp add: split_def split_acc_last_after_separator split_acc_no_separator)

lemma join_Cons: "ys \<noteq> [] \<Longrightarrow> join sep (x # ys) = x @ sep # join sep ys"
  by (cases ys) auto

lemma join_split_acc: "join sep (split_acc sep cur s) = rev cur @ s"
  by (induction s arbitrary: cur) (auto simp: join_Cons split_acc_nonempty)

lemma join_split: "join sep (split s sep) = s"
  by (simp add: split_def join_split_acc)

lemma split_acc_segments:
  "x \<in> set (split_acc sep cur s) \<Longrightarrow> sep \<in> set x \<Longrightarrow> sep \<in> set cur"
proof (induction s arbitrary: cur)
  case Nil
  then show ?case by simp
next
  case (Cons c s)
  show ?case
  proof (cases "c = sep")
    case True
    with Cons.prems have "x = rev cur \<or> x \<in> set (split_acc sep [] s)" by simp
    then show ?thesis
    proof
      assume "x = rev cur"
      with Cons.prems(2) show ?thesis by simp
    next
      assume "x \<in> set (split_acc sep [] s)"
      from Cons.IH [OF this Cons.prems(2)] show ?thesis by simp
    qed
  next
    case False
    with Cons.prems have "x \<in> set (split_acc sep (c # cur) s)" by simp
    from Cons.IH [OF this Cons.prems(2)] False show ?thesis by auto
  qed
qed

lemma split_segments: "x \<in> set (split s sep) \<Longrightarrow> sep \<notin> set x"
  by (auto simp: split_def dest: split_acc_segments)

lemma split_segments_all: "list_all (\<lambda>x. sep \<notin> set x) (split s sep)"
  by (auto simp: list_all_iff dest: split_segments)

lemma index_last: "xs \<noteq> [] \<Longrightarrow> index xs (int (length xs) - 1) = Some (last xs)"
  by (cases xs rule: rev_cases) (auto simp: index_def nth_append)

lemma decompose_at_last_separator:
  "sep \<in> set s \<Longrightarrow> \<exists>pre seg. s = pre @ sep # seg \<and> sep \<notin> set seg"
  by (metis split_list_last)

section \<open>Properties of the parser and of the store\<close>

lemma diffFromRawDiffOutput_last:
  "diffFromRawDiffOutput limit st result =
     (case parse limit new_DiffParser (last (split result NUL)) of
        (r, p') \<Rightarrow> (r, st @ [p']))"
  by (simp add: diffFromRawDiffOutput_def Let_def index_last split_nonempty)

lemma reset_counters: "(p :: DiffParser)\<lparr>oldLine := 0, newLine := 0\<rparr> = new_DiffParser"
  by (cases p) (simp add: new_DiffParser_def)

lemma parse_fresh: "fst (parse limit p t) = fst (parse limit new_DiffParser t)"
  by (simp add: parse_def Let_def reset_counters split: prod.splits sum.splits)

lemma diffFromRawDiffOutput_store_free:
  "fst (diffFromRawDiffOutput limit st result) = fst (diffFromRawDiffOutput limit [] result)"
  by (simp add: diffFromRawDiffOutput_last split: prod.splits)

lemma diffFromRawDiffOutput_allocates:
  "\<exists>p. snd (diffFromRawDiffOutput limit st result) = st @ [p]"
  by (simp add: diffFromRawDiffOutput_last split: prod.splits)

lemma diffAll_results:
  "fst (diffAll limit st rs) = map (\<lambda>r. fst (diffFromRawDiffOutput limit [] r)) rs"
proof (induction rs arbitrary: st)
  case Nil
  show ?case by simp
next
  case (Cons r rs)
  show ?case
    using Cons.IH diffFromRawDiffOutput_store_free [of limit st r]
    by (simp split: prod.splits) (metis fst_conv)
qed

lemma parse_empty: "parse limit p [] = (Inr (Diff []), new_DiffParser)"
  by (simp add: parse_def split_def isBinaryMarker_def startsWith_def closeHunk_def reset_counters)

section \<open>The invocation builder\<close>

text \<open>
  Claim C1. For a working-directory request on a file whose status is \<open>New\<close>, the
  invocation is \<^verbatim>\<open>diff --no-index --patch-with-raw -z -- /dev/null <path>\<close>, the
  comparison outside the index of the empty file with the file; the execution options are
  the set of success exit codes \<open>{0, 1}\<close>, so a code is accepted exactly when it is 0
  or 1; when the tool exits with 0 or 1 its output goes to the parser, and when it exits
  with any other code (2, say) the request fails with the tool-execution error and the
  parser is not reached.
\<close>
theorem getWorkingDirectoryDiff_New:
  assumes "status file = New"
  shows "args (getWorkingDirectoryDiff_invocation repository file) =
           [''diff'', ''--no-index'', ''--patch-with-raw'', ''-z'', ''--'', ''/dev/null'',
            FileChange.path file]
         \<and> opts (getWorkingDirectoryDiff_invocation repository file) =
             Some \<lparr>successExitCodes = {0, 1}\<rparr>
         \<and> (code \<in> acceptedExitCodes (opts (getWorkingDirectoryDiff_invocation repository file))
              \<longleftrightarrow> code = 0 \<or> code = 1)
         \<and> (tool (args (getWorkingDirectoryDiff_invocation repository file))
               (Repository.path repository) = Exited code out \<longrightarrow>
             getWorkingDirectoryDiff tool limit st repository file =
               (if code = 0 \<or> code = 1 then diffFromRawDiffOutput limit st out
                else (Inl (ToolExecutionError (Some code)), st)))"
  using assms
  by (simp add: getWorkingDirectoryDiff_invocation_def getWorkingDirectoryDiff_def
      runAndParse_def git_def acceptedExitCodes_def)

theorem getWorkingDirectoryDiff_New_witness:
  "status \<lparr>FileChange.path = ''foo.txt'', status = New\<rparr> = New
   \<and> getWorkingDirectoryDiff (\<lambda>a d. Exited 1 []) 100 [] \<lparr>Repository.path = ''/repo''\<rparr>
       \<lparr>FileChange.path = ''foo.txt'', status = New\<rparr> = diffFromRawDiffOutput 100 [] []
   \<and> getWorkingDirectoryDiff (\<lambda>a d. Exited 2 []) 100 [] \<lparr>Repository.path = ''/repo''\<rparr>
       \<lparr>FileChange.path = ''foo.txt'', status = New\<rparr> = (Inl (ToolExecutionError (Some 2)), [])"
  using getWorkingDirectoryDiff_New [of "\<lparr>FileChange.path = ''foo.txt'', status = New\<rparr>"
      "\<lparr>Repository.path = ''/repo''\<rparr>" 1 "\<lambda>a d. Exited 1 []" "[]" 100 "[]"]
    getWorkingDirectoryDiff_New [of "\<lparr>FileChange.path = ''foo.txt'', status = New\<rparr>"
      "\<lparr>Repository.path = ''/repo''\<rparr>" 2 "\<lambda>a d. Exited 2 []" "[]" 100 "[]"]
  by simp

text \<open>
  Claim C3. For a commit-relative request the argument list is \<^verbatim>\<open>log\<close>, the
  commit-ish, then \<^verbatim>\<open>-m -1 --first-parent --patch-with-raw -z\<close> (one log entry, the first
  parent only, patch with raw output, NUL as delimiter), then the separator \<^verbatim>\<open>--\<close> and
  the path of the file as the only path; the working directory is the path of the
  repository. The path is the only argument behind the separator that follows the
  commit-ish, and for a commit-ish other than \<^verbatim>\<open>--\<close> it is the only path argument of
  the whole list.
\<close>
theorem getCommitDiff_invocation_args:
  "args (getCommitDiff_invocation repository file commitish) =
     ''log'' # commitish #
       [''-m'', ''-1'', ''--first-parent'', ''--patch-with-raw'', ''-z'', ''--'', FileChange.path file]
   \<and> cwd (getCommitDiff_invocation repository file commitish) = Repository.path repository
   \<and> pathArgs (drop 2 (args (getCommitDiff_invocation repository file commitish))) =
       [FileChange.path file]
   \<and> (commitish \<noteq> ''--'' \<longrightarrow>
        revisionArgs (args (getCommitDiff_invocation repository file commitish)) =
          [''log'', commitish, ''-m'', ''-1'', ''--first-parent'', ''--patch-with-raw'', ''-z'']
        \<and> pathArgs (args (getCommitDiff_invocation repository file commitish)) =
          [FileChange.path file])"
  by (simp add: getCommitDiff_invocation_def pathArgs_def revisionArgs_def)

theorem getCommitDiff_invocation_args_witness:
  "''abc123'' \<noteq> ''--''
   \<and> args (getCommitDiff_invocation \<lparr>Repository.path = ''/repo''\<rparr>
        \<lparr>FileChange.path = ''foo.txt''\<rparr> ''abc123'') =
       [''log'', ''abc123'', ''-m'', ''-1'', ''--first-parent'', ''--patch-with-raw'', ''-z'', ''--'',
        ''foo.txt'']
   \<and> pathArgs (args (getCommitDiff_invocation \<lparr>Repository.path = ''/repo''\<rparr>
        \<lparr>FileChange.path = ''foo.txt''\<rparr> ''abc123'')) = [''foo.txt'']"
  using getCommitDiff_invocation_args [of "\<lparr>Repository.path = ''/repo''\<rparr>"
      "\<lparr>FileChange.path = ''foo.txt''\<rparr>" "''abc123''"]
  by (simp add: pathArgs_def)

text \<open>
  Claim C4. For a working-directory request on a file whose status is \<open>Renamed\<close>, the
  argument list is \<^verbatim>\<open>diff --patch-with-raw -z -- <path>\<close>: no revision is named, so the
  tool compares with the index, and \<^verbatim>\<open>HEAD\<close> is not among the arguments in front of
  the separator, whatever the path is (also for a file called \<^verbatim>\<open>HEAD\<close>, which stands
  behind the separator as a path).
\<close>
theorem getWorkingDirectoryDiff_Renamed:
  assumes "status file = Renamed"
  shows "args (getWorkingDirectoryDiff_invocation repository file) =
           [''diff'', ''--patch-with-raw'', ''-z'', ''--'', FileChange.path file]
         \<and> revisionArgs (args (getWorkingDirectoryDiff_invocation repository file)) =
             [''diff'', ''--patch-with-raw'', ''-z'']
         \<and> ''HEAD'' \<notin> set (revisionArgs (args (getWorkingDirectoryDiff_invocation repository file)))
         \<and> pathArgs (args (getWorkingDirectoryDiff_invocation repository file)) =
             [FileChange.path file]"
  using assms
  by (simp add: getWorkingDirectoryDiff_invocation_def revisionArgs_def pathArgs_def)

theorem getWorkingDirectoryDiff_Renamed_witness:
  "status \<lparr>FileChange.path = ''HEAD'', status = Renamed\<rparr> = Renamed
   \<and> revisionArgs (args (getWorkingDirectoryDiff_invocation \<lparr>Repository.path = ''/repo''\<rparr>
        \<lparr>FileChange.path = ''HEAD'', status = Renamed\<rparr>)) = [''diff'', ''--patch-with-raw'', ''-z'']
   \<and> pathArgs (args (getWorkingDirectoryDiff_invocation \<lparr>Repository.path = ''/repo''\<rparr>
        \<lparr>FileChange.path = ''HEAD'', status = Renamed\<rparr>)) = [''HEAD'']"
  using getWorkingDirectoryDiff_Renamed [of "\<lparr>FileChange.path = ''HEAD'', status = Renamed\<rparr>"
      "\<lparr>Repository.path = ''/repo''\<rparr>"]
  by (simp add: revisionArgs_def pathArgs_def)

text \<open>
  Claim C5. For a working-directory request on a file in the default case (its status
  is neither \<open>New\<close> nor \<open>Renamed\<close>, as for \<open>Modified\<close>), the argument list is
  \<^verbatim>\<open>diff HEAD --patch-with-raw -z -- <path>\<close>: it names the last commit, \<^verbatim>\<open>HEAD\<close>, as
  the revision to compare the working file with.
\<close>
theorem getWorkingDirectoryDiff_default:
  assumes "status file \<noteq> New" and "status file \<noteq> Renamed"
  shows "args (getWorkingDirectoryDiff_invocation repository file) =
           [''diff'', ''HEAD'', ''--patch-with-raw'', ''-z'', ''--'', FileChange.path file]
         \<and> revisionArgs (args (getWorkingDirectoryDiff_invocation repository file)) =
             [''diff'', ''HEAD'', ''--patch-with-raw'', ''-z'']
         \<and> ''HEAD'' \<in> set (revisionArgs (args (getWorkingDirectoryDiff_invocation repository file)))
         \<and> pathArgs (args (getWorkingDirectoryDiff_invocation repository file)) =
             [FileChange.path file]"
  using assms
  by (simp add: getWorkingDirectoryDiff_invocation_def revisionArgs_def pathArgs_def)

theorem getWorkingDirectoryDiff_default_witness:
  "status \<lparr>FileChange.path = ''foo.txt'', status = Modified\<rparr> \<noteq> New
   \<and> status \<lparr>FileChange.path = ''foo.txt'', status = Modified\<rparr> \<noteq> Renamed
   \<and> args (getWorkingDirectoryDiff_invocation \<lparr>Repository.path = ''/repo''\<rparr>
        \<lparr>FileChange.path = ''foo.txt'', status = Modified\<rparr>) =
       [''diff'', ''HEAD'', ''--patch-with-raw'', ''-z'', ''--'', ''foo.txt'']"
  using getWorkingDirectoryDiff_default [of "\<lparr>FileChange.path = ''foo.txt'', status = Modified\<rparr>"
      "\<lparr>Repository.path = ''/repo''\<rparr>"]
  by (simp add: revisionArgs_def pathArgs_def)

text \<open>
  Claim C6. A commit-relative request passes no execution options, so the runner
  accepts its default set \<open>{0}\<close>: when the tool exits with 0 its output goes to the
  parser, and when it exits with any other code the request fails with the tool-execution
  error.
\<close>
theorem getCommitDiff_exit_codes:
  "opts (getCommitDiff_invocation repository file commitish) = None
   \<and> acceptedExitCodes (opts (getCommitDiff_invocation repository file commitish)) = {0}
   \<and> (tool (args (getCommitDiff_invocation repository file commitish))
         (Repository.path repository) = Exited code out \<longrightarrow>
       getCommitDiff tool limit st repository file commitish =
         (if code = 0 then diffFromRawDiffOutput limit st out
          else (Inl (ToolExecutionError (Some code)), st)))"
  by (simp add: getCommitDiff_invocation_def getCommitDiff_def runAndParse_def git_def
      acceptedExitCodes_def)

theorem getCommitDiff_exit_codes_witness:
  "(\<lambda>a d. Exited 1 ''x'') (args (getCommitDiff_invocation \<lparr>Repository.path = ''/repo''\<rparr>
       \<lparr>FileChange.path = ''foo.txt''\<rparr> ''abc123'')) ''/repo'' = Exited 1 ''x''
   \<and> getCommitDiff (\<lambda>a d. Exited 1 ''x'') 100 [] \<lparr>Repository.path = ''/repo''\<rparr>
       \<lparr>FileChange.path = ''foo.txt''\<rparr> ''abc123'' = (Inl (ToolExecutionError (Some 1)), [])"
  using getCommitDiff_exit_codes [of "\<lparr>Repository.path = ''/repo''\<rparr>"
      "\<lparr>FileChange.path = ''foo.txt''\<rparr>" "''abc123''" "\<lambda>a d. Exited 1 ''x''" 1 "''x''"
      100 "[]"]
  by simp

text \<open>
  Claim C7. For every working-directory request, whatever the status of the file, the
  options of the argument list contain \<^verbatim>\<open>--patch-with-raw\<close> and \<^verbatim>\<open>-z\<close>, and the given
  path is the last argument and the only path of the repository behind the separator:
  the paths are the given path alone, preceded for a \<open>New\<close> file by the empty file
  \<^verbatim>\<open>/dev/null\<close> it is compared with. The working directory is the path of the
  repository.
\<close>
theorem getWorkingDirectoryDiff_all_modes:
  "''--patch-with-raw'' \<in> set (revisionArgs (args (getWorkingDirectoryDiff_invocation repository file)))
   \<and> ''-z'' \<in> set (revisionArgs (args (getWorkingDirectoryDiff_invocation repository file)))
   \<and> pathArgs (args (getWorkingDirectoryDiff_invocation repository file)) =
       (if status file = New then [''/dev/null'', FileChange.path file]
        else [FileChange.path file])
   \<and> last (args (getWorkingDirectoryDiff_invocation repository file)) = FileChange.path file
   \<and> cwd (getWorkingDirectoryDiff_invocation repository file) = Repository.path repository"
  by (simp add: getWorkingDirectoryDiff_invocation_def revisionArgs_def pathArgs_def)

theorem getWorkingDirectoryDiff_all_modes_witness:
  "pathArgs (args (getWorkingDirectoryDiff_invocation \<lparr>Repository.path = ''/repo''\<rparr>
      \<lparr>FileChange.path = ''foo.txt'', status = Deleted\<rparr>)) = [''foo.txt'']
   \<and> pathArgs (args (getWorkingDirectoryDiff_invocation \<lparr>Repository.path = ''/repo''\<rparr>
      \<lparr>FileChange.path = ''foo.txt'', status = New\<rparr>)) = [''/dev/null'', ''foo.txt'']"
  using getWorkingDirectoryDiff_all_modes [of "\<lparr>Repository.path = ''/repo''\<rparr>"
      "\<lparr>FileChange.path = ''foo.txt'', status = Deleted\<rparr>"]
    getWorkingDirectoryDiff_all_modes [of "\<lparr>Repository.path = ''/repo''\<rparr>"
      "\<lparr>FileChange.path = ''foo.txt'', status = New\<rparr>"]
  by (simp add: revisionArgs_def pathArgs_def)

text \<open>
  Claim C9. For every status other than \<open>New\<close> and \<open>Renamed\<close> (deleted, conflicted
  or any other member of the enum) the request is the one of the \<open>Modified\<close> case: the
  same invocation, which starts with \<^verbatim>\<open>diff HEAD\<close>, and the same result.
\<close>
theorem getWorkingDirectoryDiff_fallthrough:
  assumes "status file \<noteq> New" and "status file \<noteq> Renamed"
  shows "getWorkingDirectoryDiff_invocation repository file =
           getWorkingDirectoryDiff_invocation repository (file\<lparr>status := Modified\<rparr>)
         \<and> getWorkingDirectoryDiff tool limit st repository file =
             getWorkingDirectoryDiff tool limit st repository (file\<lparr>status := Modified\<rparr>)
         \<and> take 2 (args (getWorkingDirectoryDiff_invocation repository file)) = [''diff'', ''HEAD'']"
  using assms
  by (simp add: getWorkingDirectoryDiff_invocation_def getWorkingDirectoryDiff_def)

theorem getWorkingDirectoryDiff_fallthrough_witness:
  "status \<lparr>FileChange.path = ''foo.txt'', status = Deleted\<rparr> \<noteq> New
   \<and> status \<lparr>FileChange.path = ''foo.txt'', status = Deleted\<rparr> \<noteq> Renamed
   \<and> getWorkingDirectoryDiff_invocation \<lparr>Repository.path = ''/repo''\<rparr>
        \<lparr>FileChange.path = ''foo.txt'', status = Deleted\<rparr> =
      getWorkingDirectoryDiff_invocation \<lparr>Repository.path = ''/repo''\<rparr>
        \<lparr>FileChange.path = ''foo.txt'', status = Modified\<rparr>"
  using getWorkingDirectoryDiff_fallthrough [of "\<lparr>FileChange.path = ''foo.txt'', status = Deleted\<rparr>"
      "\<lparr>Repository.path = ''/repo''\<rparr>"]
  by (simp add: revisionArgs_def pathArgs_def)

section \<open>The raw output splitter and the parser\<close>

text \<open>
  Claim C2. The response is split at the NUL characters (joining the segments with NUL
  gives the response back, and no segment contains NUL), and the parser, a fresh one,
  is given the last segment and nothing else: for a response that ends with a segment
  \<open>seg\<close> behind a NUL, whatever stands in front of that NUL is discarded, and a
  response without NUL is its own single segment and is parsed as it is.
\<close>
theorem diffFromRawDiffOutput_last_segment:
  "diffFromRawDiffOutput limit st result =
     (case parse limit new_DiffParser (last (split result NUL)) of (r, p') \<Rightarrow> (r, st @ [p']))
   \<and> join NUL (split result NUL) = result
   \<and> list_all (\<lambda>x. NUL \<notin> set x) (split result NUL)
   \<and> (NUL \<notin> set seg \<longrightarrow> last (split (pre @ NUL # seg) NUL) = seg)
   \<and> (NUL \<notin> set seg \<longrightarrow>
        fst (diffFromRawDiffOutput limit st (pre @ NUL # seg)) = fst (parse limit new_DiffParser seg))
   \<and> (NUL \<notin> set result \<longrightarrow> split result NUL = [result])
   \<and> (NUL \<notin> set result \<longrightarrow>
        fst (diffFromRawDiffOutput limit st result) = fst (parse limit new_DiffParser result))"
  by (simp add: diffFromRawDiffOutput_last last_split_after_separator split_no_separator
      join_split split_segments_all split: prod.splits)

theorem diffFromRawDiffOutput_last_segment_witness:
  "NUL \<notin> set ''diff --git a/x b/x\<newline>@@ -1,1 +1,1 @@\<newline>-old\<newline>+new\<newline>''
   \<and> NUL \<notin> set ''no separator''
   \<and> last (split (''RAW_SUMMARY'' @ NUL #
         ''diff --git a/x b/x\<newline>@@ -1,1 +1,1 @@\<newline>-old\<newline>+new\<newline>'') NUL) =
       ''diff --git a/x b/x\<newline>@@ -1,1 +1,1 @@\<newline>-old\<newline>+new\<newline>''
   \<and> split ''no separator'' NUL = [''no separator'']"
  using diffFromRawDiffOutput_last_segment [of 100 "[]" "''no separator''"
      "''diff --git a/x b/x\<newline>@@ -1,1 +1,1 @@\<newline>-old\<newline>+new\<newline>''" "''RAW_SUMMARY''"]
  by (simp add: NUL_def)

text \<open>The examples of section 8 of the spec, on the parser as modelled.\<close>

lemma example_raw_summary:
  "fst (diffFromRawDiffOutput 100 [] (''RAW_SUMMARY'' @ NUL #
         ''diff --git a/x b/x\<newline>@@ -1,1 +1,1 @@\<newline>-old\<newline>+new\<newline>'')) =
   Inr (Diff [\<lparr>header = \<lparr>oldStart = 1, oldCount = 1, newStart = 1, newCount = 1\<rparr>,
              hunkLines = [\<lparr>content = ''-old'', kind = Removed, oldLineNumber = Some 1,
                             newLineNumber = None\<rparr>,
                           \<lparr>content = ''+new'', kind = Added, oldLineNumber = None,
                             newLineNumber = Some 1\<rparr>]\<rparr>])"
  by code_simp

lemma example_line_numbers:
  "fst (parse 100 new_DiffParser
     ''@@ -2,3 +2,4 @@\<newline> context1\<newline>-removed1\<newline>+added1\<newline>+added2\<newline> context2\<newline>'') =
   Inr (Diff [\<lparr>header = \<lparr>oldStart = 2, oldCount = 3, newStart = 2, newCount = 4\<rparr>,
      hunkLines =
        [\<lparr>content = '' context1'', kind = Context, oldLineNumber = Some 2, newLineNumber = Some 2\<rparr>,
         \<lparr>content = ''-removed1'', kind = Removed, oldLineNumber = Some 3, newLineNumber = None\<rparr>,
         \<lparr>content = ''+added1'', kind = Added, oldLineNumber = None, newLineNumber = Some 3\<rparr>,
         \<lparr>content = ''+added2'', kind = Added, oldLineNumber = None, newLineNumber = Some 4\<rparr>,
         \<lparr>content = '' context2'', kind = Context, oldLineNumber = Some 4, newLineNumber = Some 5\<rparr>]\<rparr>])"
  by code_simp

lemma example_malformed_header:
  "fst (parse 100 new_DiffParser ''@@ -,3 +2,4 @@\<newline> context1'') =
     Inl (ParseError ''@@ -,3 +2,4 @@'')"
  by code_simp

text \<open>
  Claim C8. The empty response is tolerated: splitting it gives the single segment
  \<^verbatim>\<open>""\<close>, which is the last one, and parsing it gives a diff with no hunks, for every
  size threshold.
\<close>
theorem diffFromRawDiffOutput_empty:
  "split [] NUL = [[]]
   \<and> index (split [] NUL) (int (length (split [] NUL)) - 1) = Some []
   \<and> diffFromRawDiffOutput limit st [] = (Inr (Diff []), st @ [new_DiffParser])
   \<and> (\<exists>d. fst (diffFromRawDiffOutput limit st []) = Inr d \<and> hunks d = [])"
  by (simp add: diffFromRawDiffOutput_last parse_empty split_def index_def)

theorem diffFromRawDiffOutput_empty_witness:
  "diffFromRawDiffOutput 0 [] [] = (Inr (Diff []), [new_DiffParser])"
  using diffFromRawDiffOutput_empty [of 0 "[]"] by simp

text \<open>
  Claim C10. The diff built from a response does not depend on the store: two calls on
  the same text give equal results on any two stores, in particular after any two
  sequences of other requests, and in a sequence of requests each result is the one the
  request has on its own. A call allocates one parser object and leaves every object
  that was in the store as it was.
\<close>
theorem diffFromRawDiffOutput_stateless:
  "fst (diffFromRawDiffOutput limit st1 result) = fst (diffFromRawDiffOutput limit st2 result)
   \<and> take (length st1) (snd (diffFromRawDiffOutput limit st1 result)) = st1
   \<and> length (snd (diffFromRawDiffOutput limit st1 result)) = Suc (length st1)
   \<and> fst (diffFromRawDiffOutput limit (snd (diffAll limit st1 before1)) result) =
       fst (diffFromRawDiffOutput limit (snd (diffAll limit st2 before2)) result)
   \<and> fst (diffAll limit st1 (before1 @ result # after1)) ! length before1 =
       fst (diffFromRawDiffOutput limit st2 result)"
proof -
  have free: "fst (diffFromRawDiffOutput limit sa result) = fst (diffFromRawDiffOutput limit sb result)"
    for sa sb
    using diffFromRawDiffOutput_store_free [of limit sa result]
      diffFromRawDiffOutput_store_free [of limit sb result]
    by simp
  obtain p where p: "snd (diffFromRawDiffOutput limit st1 result) = st1 @ [p]"
    using diffFromRawDiffOutput_allocates by blast
  have "fst (diffAll limit st1 (before1 @ result # after1)) ! length before1 =
      fst (diffFromRawDiffOutput limit [] result)"
    by (simp add: diffAll_results nth_append)
  with free [of st1 st2] free [of "[]" st2] p free show ?thesis
    by simp
qed

theorem diffFromRawDiffOutput_stateless_witness:
  "fst (diffFromRawDiffOutput 100 [\<lparr>oldLine = 7, newLine = 9\<rparr>] ''+x'') =
     fst (diffFromRawDiffOutput 100 [] ''+x'')
   \<and> take 1 (snd (diffFromRawDiffOutput 100 [\<lparr>oldLine = 7, newLine = 9\<rparr>] ''+x'')) =
       [\<lparr>oldLine = 7, newLine = 9\<rparr>]"
  using diffFromRawDiffOutput_stateless [of 100 "[\<lparr>oldLine = 7, newLine = 9\<rparr>]" "''+x''" "[]"
      "[]" "[]" "[]"]
  by simp

end
